theory Spec2Isabelle
  imports Main "HOL-Library.Word"
begin

section \<open>JavaScript values\<close>

subsection \<open>Strings\<close>

text \<open>
  A JavaScript string is a sequence of 16-bit code units. String literals of the source are
  written with \<open>js\<close>, which maps each character of an ASCII literal to its code unit.
\<close>

type_synonym code_unit = "16 word"
type_synonym jsstring = "code_unit list"

definition js :: "string \<Rightarrow> jsstring" where
  "js s = map of_char s"

text \<open>
  The code units that \<open>String.prototype.trim\<close> strips and that the regular expression class
  \<open>\s\<close> matches: ECMAScript's WhiteSpace and LineTerminator productions (TAB, LF, VT, FF, CR,
  SP, NBSP, the Unicode space separators, LS, PS and the byte order mark).
\<close>

definition is_ws :: "code_unit \<Rightarrow> bool" where
  "is_ws c \<longleftrightarrow>
     c \<in> {0x09, 0x0A, 0x0B, 0x0C, 0x0D, 0x20, 0xA0, 0x1680, 0x2028, 0x2029,
          0x202F, 0x205F, 0x3000, 0xFEFF}
     \<or> (0x2000 \<le> c \<and> c \<le> 0x200A)"

text \<open>\<open>s.trim()\<close>: whitespace removed from both ends.\<close>

definition trim :: "jsstring \<Rightarrow> jsstring" where
  "trim s = rev (dropWhile is_ws (rev (dropWhile is_ws s)))"

text \<open>
  \<open>s.replace(/\s+/g, '-')\<close>: the global replace looks for the next match from the end of the
  previous one. The text before the match is copied, the match (a whitespace code unit and
  all whitespace that follows it, since \<open>+\<close> is greedy) is replaced by a hyphen, and the search
  goes on behind the match. With no match left, the rest is copied.
\<close>

function replace_ws_runs :: "jsstring \<Rightarrow> jsstring" where
  "replace_ws_runs s =
     (case dropWhile (\<lambda>c. \<not> is_ws c) s of
        [] \<Rightarrow> s
      | m # after \<Rightarrow>
          takeWhile (\<lambda>c. \<not> is_ws c) s @ 0x2D # replace_ws_runs (dropWhile is_ws after))"
  by pat_completeness auto
termination
proof (relation "measure length")
  show "wf (measure length)" by simp
next
  fix s :: jsstring and m after
  assume "dropWhile (\<lambda>c. \<not> is_ws c) s = m # after"
  then have "length after < length s"
    using length_dropWhile_le [of "\<lambda>c. \<not> is_ws c" s] by simp
  moreover have "length (dropWhile is_ws after) \<le> length after"
    by (rule length_dropWhile_le)
  ultimately show "(dropWhile is_ws after, s) \<in> measure length" by simp
qed

declare replace_ws_runs.simps [simp del]

text \<open>
  The claim's wording of the same transformation, "every whitespace run replaced by a
  hyphen": going through the string, the first code unit of a run of whitespace becomes a
  hyphen, the other code units of the run disappear, everything else stays. The flag says
  whether the previous code unit was whitespace.
\<close>

fun spec_dash_runs :: "bool \<Rightarrow> jsstring \<Rightarrow> jsstring" where
  "spec_dash_runs in_run [] = []"
| "spec_dash_runs in_run (c # cs) =
     (if is_ws c then (if in_run then [] else [0x2D]) @ spec_dash_runs True cs
      else c # spec_dash_runs False cs)"

text \<open>Decimal digits of a number, as a template literal prints an integer.\<close>

fun show_nat :: "nat \<Rightarrow> jsstring" where
  "show_nat n =
     (if n < 10 then [of_nat (48 + n)]
      else show_nat (n div 10) @ [of_nat (48 + n mod 10)])"

declare show_nat.simps [simp del]

subsection \<open>JSON values\<close>

text \<open>
  What \<open>response.json()\<close> and axios put into \<open>data\<close>: the result of parsing a JSON
  text. \<open>JObj\<close> lists the own properties of the parsed object, each key once. JSON numbers
  are restricted to the integers; the code only tests them for truthiness and, inside
  \<open>new Error(...)\<close>, converts them to a string. A JavaScript value that may be
  \<open>undefined\<close> is a \<open>json option\<close>, with \<open>None\<close> for \<open>undefined\<close>.
\<close>

datatype json =
    JNull
  | JBool bool
  | JNum int
  | JStr jsstring
  | JArr "json list"
  | JObj "(jsstring \<times> json) list"

text \<open>Truthiness, as \<open>!v\<close>, \<open>v || w\<close> and \<open>if (v)\<close> test it.\<close>

fun truthy :: "json \<Rightarrow> bool" where
  "truthy JNull = False"
| "truthy (JBool b) = b"
| "truthy (JNum n) = (n \<noteq> 0)"
| "truthy (JStr s) = (s \<noteq> [])"
| "truthy (JArr xs) = True"
| "truthy (JObj kvs) = True"

fun is_string :: "json \<Rightarrow> bool" where
  "is_string (JStr s) = True"
| "is_string v = False"

text \<open>A value that \<open>a || b\<close> passes on only if it is a string.\<close>

fun string_or_falsy :: "json option \<Rightarrow> bool" where
  "string_or_falsy None = True"
| "string_or_falsy (Some v) = (is_string v \<or> \<not> truthy v)"

text \<open>
  \<open>v.k\<close> for a value \<open>v\<close> other than \<open>null\<close>, for the property names the code reads
  (\<open>content\<close>, \<open>message\<close>, \<open>error\<close>, \<open>text\<close>, \<open>result\<close>, \<open>topics\<close>): an object yields its own
  property or \<open>undefined\<close>; strings, numbers, booleans and arrays have no property of
  these names, neither do the built-in prototypes.
\<close>

fun get_prop :: "json \<Rightarrow> jsstring \<Rightarrow> json option" where
  "get_prop (JObj kvs) k = map_of kvs k"
| "get_prop v k = None"

text \<open>
  Values thrown or rejected with. \<open>ErrorObj m\<close> is an instance of \<open>Error\<close> with message
  \<open>m\<close> that axios does not recognise as its own. \<open>AxiosError m r\<close> is an error of axios
  (also an instance of \<open>Error\<close>) with message \<open>m\<close>; \<open>r\<close> is the \<open>data\<close> of its
  \<open>response\<close>, or \<open>None\<close> when no response was received. \<open>NonError\<close> is any value for
  which both \<open>instanceof Error\<close> and \<open>axios.isAxiosError\<close> are false.
\<close>

datatype thrown = ErrorObj jsstring | AxiosError jsstring "json option" | NonError

text \<open>
  The parts of the JavaScript runtime that the code calls and that are taken as given:
  \<open>String.prototype.toLowerCase\<close>, the string conversion that the \<open>Error\<close> constructor
  applies to a message that is not a string, and the message of the \<open>TypeError\<close> raised by
  reading a property of \<open>null\<close> (it differs between engines; the arguments are the text of
  the object expression and the property name).
\<close>

record runtime =
  toLowerCase :: "jsstring \<Rightarrow> jsstring"
  toStringValue :: "json \<Rightarrow> jsstring"
  nullReadMessage :: "jsstring \<Rightarrow> jsstring \<Rightarrow> jsstring"

definition to_message :: "runtime \<Rightarrow> json \<Rightarrow> jsstring" where
  "to_message rt v = (case v of JStr s \<Rightarrow> s | _ \<Rightarrow> toStringValue rt v)"

text \<open>\<open>v.k\<close> for any parsed value: reading a property of \<open>null\<close> throws.\<close>

definition read_prop :: "runtime \<Rightarrow> jsstring \<Rightarrow> json \<Rightarrow> jsstring \<Rightarrow> thrown + json option" where
  "read_prop rt expr v k =
     (case v of
        JNull \<Rightarrow> Inl (ErrorObj (nullReadMessage rt expr k))
      | _ \<Rightarrow> Inr (get_prop v k))"

text \<open>\<open>a || b\<close> on strings.\<close>

definition or_string :: "jsstring \<Rightarrow> jsstring \<Rightarrow> jsstring" where
  "or_string a b = (if a \<noteq> [] then a else b)"

text \<open>\<open>a || b\<close> where \<open>a\<close> may be \<open>undefined\<close>.\<close>

definition or_else :: "json option \<Rightarrow> json \<Rightarrow> json" where
  "or_else a b = (case a of None \<Rightarrow> b | Some v \<Rightarrow> if truthy v then v else b)"

section \<open>TacticalContentGenerator (src/component/content.tsx)\<close>

subsection \<open>View state\<close>

record form_data =
  contentType :: jsstring
  topic :: jsstring
  tactics :: "jsstring list"
  tone :: jsstring
  length_field :: jsstring
  complexity :: jsstring
  audience :: jsstring
  keywords_field :: jsstring
  examples :: jsstring
  humorLevel :: jsstring

text \<open>
  The state hooks of the component. \<open>content\<close> holds whatever \<open>setContent\<close> was given:
  the initial empty string or the \<open>content\<close> property of a response body.
\<close>

record view_state =
  formData :: form_data
  currentStep :: nat
  loading :: bool
  content :: json
  showAdvanced :: bool
  error :: jsstring

definition initial_formData :: form_data where
  "initial_formData =
     \<lparr> contentType = js ''strategy'', topic = [], tactics = [],
       tone = js ''professional'', length_field = js ''medium'',
       complexity = js ''intermediate'', audience = [], keywords_field = [],
       examples = js ''yes'', humorLevel = js ''none'' \<rparr>"

definition initial_state :: view_state where
  "initial_state =
     \<lparr> formData = initial_formData, currentStep = 0, loading = False,
       content = JStr [], showAdvanced = False, error = [] \<rparr>"

definition steps :: "(string \<times> string) list" where
  "steps = [(''Core'', ''Core Query''), (''Frameworks'', ''Frameworks''),
            (''Parameters'', ''Parameters''), (''Generate'', ''Generate'')]"

definition tacticalOptions :: "(jsstring \<times> string) list" where
  "tacticalOptions =
     [(js ''swot'', ''Strength/Weakness Review''),
      (js ''pestle'', ''External Factors Scan''),
      (js ''porter'', ''Competitive Landscape Scan''),
      (js ''okr'', ''Goal Setting with Metrics''),
      (js ''growth'', ''Rapid Experimentation''),
      (js ''military'', ''Strategic Maneuvering''),
      (js ''game'', ''Interactive Decision-Making''),
      (js ''behavioral'', ''Human Behavior Insights'')]"

subsection \<open>Input handlers\<close>

text \<open>The \<open>name\<close> attributes of the inputs that \<open>handleChange\<close> is attached to.\<close>

datatype field_name =
    F_contentType | F_topic | F_tone | F_length | F_humorLevel
  | F_complexity | F_examples | F_audience | F_keywords

fun set_field :: "field_name \<Rightarrow> jsstring \<Rightarrow> form_data \<Rightarrow> form_data" where
  "set_field F_contentType v fd = fd\<lparr>contentType := v\<rparr>"
| "set_field F_topic v fd = fd\<lparr>topic := v\<rparr>"
| "set_field F_tone v fd = fd\<lparr>tone := v\<rparr>"
| "set_field F_length v fd = fd\<lparr>length_field := v\<rparr>"
| "set_field F_humorLevel v fd = fd\<lparr>humorLevel := v\<rparr>"
| "set_field F_complexity v fd = fd\<lparr>complexity := v\<rparr>"
| "set_field F_examples v fd = fd\<lparr>examples := v\<rparr>"
| "set_field F_audience v fd = fd\<lparr>audience := v\<rparr>"
| "set_field F_keywords v fd = fd\<lparr>keywords_field := v\<rparr>"

text \<open>\<open>if (error) setError('')\<close>.\<close>

definition clear_error_if_set :: "view_state \<Rightarrow> view_state" where
  "clear_error_if_set s = (if error s \<noteq> [] then s\<lparr>error := []\<rparr> else s)"

definition handleChange :: "field_name \<Rightarrow> jsstring \<Rightarrow> view_state \<Rightarrow> view_state" where
  "handleChange name v s =
     clear_error_if_set (s\<lparr>formData := set_field name v (formData s)\<rparr>)"

text \<open>
  \<open>handleTacticSelect\<close>: the new list is \<open>prev.tactics.filter(t => t !== value)\<close> when
  \<open>prev.tactics.includes(value)\<close>, and \<open>[...prev.tactics, value]\<close> otherwise.
\<close>

definition toggle_tactic :: "jsstring \<Rightarrow> jsstring list \<Rightarrow> jsstring list" where
  "toggle_tactic v ts = (if v \<in> set ts then filter (\<lambda>t. t \<noteq> v) ts else ts @ [v])"

definition handleTacticSelect :: "jsstring \<Rightarrow> view_state \<Rightarrow> view_state" where
  "handleTacticSelect v s =
     clear_error_if_set
       (s\<lparr>formData := (formData s)\<lparr>tactics := toggle_tactic v (tactics (formData s))\<rparr>\<rparr>)"

subsection \<open>Step navigation\<close>

definition isCurrentStepValid :: "view_state \<Rightarrow> nat \<Rightarrow> bool" where
  "isCurrentStepValid s stepIndex =
     (if stepIndex = 0 then trim (topic (formData s)) \<noteq> []
      else if stepIndex = 1 then length (tactics (formData s)) > 0
      else True)"

text \<open>
  \<open>validateStep\<close> returns the verdict together with the state after its \<open>setError\<close>
  calls.
\<close>

definition validateStep :: "nat \<Rightarrow> view_state \<Rightarrow> bool \<times> view_state" where
  "validateStep stepIndex s =
     (let s0 = s\<lparr>error := []\<rparr> in
      if stepIndex = 0 then
        (if trim (topic (formData s)) = []
         then (False, s0\<lparr>error := js ''Please provide a \"Core Query\" (topic) to proceed.''\<rparr>)
         else (True, s0))
      else if stepIndex = 1 then
        (if length (tactics (formData s)) = 0
         then (False,
               s0\<lparr>error := js ''Please select at least one \"Operational Framework\" to proceed.''\<rparr>)
         else (True, s0))
      else (True, s0))"

definition handleNextStep :: "view_state \<Rightarrow> view_state" where
  "handleNextStep s =
     (case validateStep (currentStep s) s of
        (True, s1) \<Rightarrow>
          if currentStep s < length steps - 1
          then s1\<lparr>currentStep := currentStep s1 + 1, error := []\<rparr>
          else s1
      | (False, s1) \<Rightarrow> s1)"

definition handlePrevStep :: "view_state \<Rightarrow> view_state" where
  "handlePrevStep s =
     (if currentStep s > 0 then s\<lparr>currentStep := currentStep s - 1, error := []\<rparr> else s)"

subsection \<open>Content generation\<close>

text \<open>
  A \<open>fetch\<close> call as the code issues it. \<open>payload\<close> is the object handed to
  \<open>JSON.stringify\<close> for the request body.
\<close>

record request =
  url :: jsstring
  http_method :: jsstring
  headers :: "(jsstring \<times> jsstring) list"
  payload :: json

text \<open>
  What the network answers. \<open>fetch\<close> either rejects or resolves with a response that has a
  status; \<open>response.ok\<close> holds for the statuses 200 to 299. \<open>response.json()\<close> either
  resolves with the parsed body or rejects (a body that is not JSON).
\<close>

datatype body_read = Parsed json | ReadFailed thrown

datatype fetch_outcome = Rejected thrown | Response nat body_read

definition response_ok :: "nat \<Rightarrow> bool" where
  "response_ok status \<longleftrightarrow> 200 \<le> status \<and> status \<le> 299"

text \<open>A failed call: a network error, or a response that is not ok.\<close>

fun fetch_failed :: "fetch_outcome \<Rightarrow> bool" where
  "fetch_failed (Rejected e) = True"
| "fetch_failed (Response status body) = (\<not> response_ok status)"

definition generateContent_payload :: "form_data \<Rightarrow> json" where
  "generateContent_payload fd =
     JObj [(js ''contentType'', JStr (contentType fd)),
           (js ''topic'', JStr (topic fd)),
           (js ''tactics'', JArr (map JStr (tactics fd))),
           (js ''tone'', JStr (tone fd)),
           (js ''length'', JStr (length_field fd)),
           (js ''complexity'', JStr (complexity fd)),
           (js ''audience'', JStr (audience fd)),
           (js ''keywords'', JStr (keywords_field fd)),
           (js ''examples'', JStr (examples fd)),
           (js ''humorLevel'', JStr (humorLevel fd))]"

definition generateContent_request :: "form_data \<Rightarrow> request" where
  "generateContent_request fd =
     \<lparr> url = js ''https://educt-back.onrender.com/api/generate-content'',
       http_method = js ''POST'',
       headers = [(js ''Content-Type'', js ''application/json'')],
       payload = generateContent_payload fd \<rparr>"

text \<open>
  \<open>generateContent\<close> up to its \<open>await fetch(...)\<close>. It reads \<open>formData\<close> from the
  render that created the handler, here the argument \<open>fd\<close>, and returns the state after
  its setter calls together with the request it has issued, if any.
\<close>

definition generateContent_begin :: "form_data \<Rightarrow> view_state \<Rightarrow> view_state \<times> request option" where
  "generateContent_begin fd s =
     (if trim (topic fd) = [] \<or> length (tactics fd) = 0
      then (s\<lparr>error := js ''Please complete all previous required fields.''\<rparr>, None)
      else (s\<lparr>loading := True, error := [], content := JStr []\<rparr>,
            Some (generateContent_request fd)))"

text \<open>
  The body of the \<open>try\<close> block from the point where \<open>fetch\<close> has settled: the value
  passed to \<open>setContent\<close>, or what is thrown.
\<close>

definition generateContent_try :: "runtime \<Rightarrow> fetch_outcome \<Rightarrow> thrown + json" where
  "generateContent_try rt out =
     (case out of
        Rejected e \<Rightarrow> Inl e
      | Response status body \<Rightarrow>
          if \<not> response_ok status then
            (let errorData = (case body of Parsed d \<Rightarrow> d | ReadFailed e \<Rightarrow> JObj []) in
             case read_prop rt (js ''errorData'') errorData (js ''message'') of
               Inl e \<Rightarrow> Inl e
             | Inr m \<Rightarrow>
                 Inl (ErrorObj (to_message rt
                        (or_else m (JStr (js ''Server error: '' @ show_nat status))))))
          else
            (case body of
               ReadFailed e \<Rightarrow> Inl e
             | Parsed data \<Rightarrow>
                 (case read_prop rt (js ''data'') data (js ''content'') of
                    Inl e \<Rightarrow> Inl e
                  | Inr None \<Rightarrow>
                      Inl (ErrorObj (js ''No content received from backend server''))
                  | Inr (Some c) \<Rightarrow>
                      if \<not> truthy c
                      then Inl (ErrorObj (js ''No content received from backend server''))
                      else Inr c)))"

text \<open>The \<open>catch\<close> block: the argument of \<open>setError\<close>.\<close>

definition generateContent_catch :: "thrown \<Rightarrow> jsstring" where
  "generateContent_catch err =
     (case err of
        ErrorObj m \<Rightarrow>
          or_string m (js ''Failed to generate content. Please check your network and try again.'')
      | AxiosError m r \<Rightarrow>
          or_string m (js ''Failed to generate content. Please check your network and try again.'')
      | NonError \<Rightarrow> js ''An unexpected error occurred during content generation.'')"

text \<open>\<open>generateContent\<close> from the settlement of \<open>fetch\<close> to the end of \<open>finally\<close>.\<close>

definition generateContent_resume :: "runtime \<Rightarrow> fetch_outcome \<Rightarrow> view_state \<Rightarrow> view_state" where
  "generateContent_resume rt out s =
     (case generateContent_try rt out of
        Inr c \<Rightarrow> s\<lparr>content := c\<rparr>
      | Inl e \<Rightarrow> s\<lparr>error := generateContent_catch e\<rparr>)
     \<lparr>loading := False\<rparr>"

text \<open>
  A whole call of \<open>generateContent\<close> from a click on the button, with nothing else
  happening while the request is pending: the final state and the requests issued.
\<close>

record generation =
  final :: view_state
  issued :: "request list"

definition generateContent :: "runtime \<Rightarrow> view_state \<Rightarrow> fetch_outcome \<Rightarrow> generation" where
  "generateContent rt s out =
     (case generateContent_begin (formData s) s of
        (s1, None) \<Rightarrow> \<lparr> final = s1, issued = [] \<rparr>
      | (s1, Some r) \<Rightarrow> \<lparr> final = generateContent_resume rt out s1, issued = [r] \<rparr>)"

text \<open>The generate button carries \<open>disabled={loading}\<close>.\<close>

definition generate_disabled :: "view_state \<Rightarrow> bool" where
  "generate_disabled s = loading s"

subsection \<open>Download, reset and regeneration\<close>

record download =
  blobParts :: "json list"
  blobType :: jsstring
  download_name :: jsstring

definition downloadMarkdown :: "runtime \<Rightarrow> view_state \<Rightarrow> download option" where
  "downloadMarkdown rt s =
     (if \<not> truthy (content s) then None
      else Some
        \<lparr> blobParts = [content s],
          blobType = js ''text/markdown'',
          download_name =
            js ''tactical-content-''
            @ or_string (toLowerCase rt (replace_ws_runs (topic (formData s)))) (js ''untitled'')
            @ js ''.md'' \<rparr>)"

definition clearForm :: "view_state \<Rightarrow> view_state" where
  "clearForm s =
     s\<lparr> formData :=
          \<lparr> contentType = js ''strategy'', topic = [], tactics = [],
            tone = js ''professional'', length_field = js ''medium'',
            complexity = js ''intermediate'', audience = [], keywords_field = [],
            examples = js ''yes'', humorLevel = js ''none'' \<rparr>,
        content := JStr [],
        error := [],
        currentStep := 0,
        showAdvanced := False \<rparr>"

text \<open>
  The state update of \<open>regenerateWithEnhancement\<close>. \<open>r\<close> stands for the random draw:
  \<open>Math.floor(Math.random() * n)\<close> is some index below \<open>n\<close>, here \<open>r mod n\<close>. The call of
  \<open>generateContent\<close> that the handler schedules is the event \<open>Scheduled\<close> below.
\<close>

definition regenerateWithEnhancement :: "nat \<Rightarrow> view_state \<Rightarrow> view_state" where
  "regenerateWithEnhancement r s =
     (if length (tactics (formData s)) > 0 then
        (let allTactics = map fst tacticalOptions;
             unusedTactics = filter (\<lambda>t. t \<notin> set (tactics (formData s))) allTactics
         in if length unusedTactics > 0
            then s\<lparr>formData := (formData s)
                   \<lparr>tactics := tactics (formData s)
                      @ [unusedTactics ! (r mod length unusedTactics)]\<rparr>\<rparr>
            else s)
      else s)"

text \<open>
  A whole click on "Optimize & Regenerate", with nothing else happening until the request
  has settled: the state update above, then, 100 ms later, the call of \<open>generateContent\<close>
  that the handler scheduled. The scheduled function is the \<open>generateContent\<close> of the
  render in which the click happened, so it reads the form data of \<open>s\<close>, the state at the
  click, while its setters act on the state after the update.
\<close>

definition regenerateWithEnhancement_click ::
  "runtime \<Rightarrow> nat \<Rightarrow> view_state \<Rightarrow> fetch_outcome \<Rightarrow> generation" where
  "regenerateWithEnhancement_click rt r s out =
     (case generateContent_begin (formData s) (regenerateWithEnhancement r s) of
        (s1, None) \<Rightarrow> \<lparr> final = s1, issued = [] \<rparr>
      | (s1, Some req) \<Rightarrow> \<lparr> final = generateContent_resume rt out s1, issued = [req] \<rparr>)"

subsection \<open>Event sequences\<close>

text \<open>
  The events that change the view state. \<open>Generate\<close> is a click on the generate button:
  \<open>generateContent\<close> runs up to its \<open>await\<close> on the current form data. \<open>Scheduled fd\<close>
  is the call of \<open>generateContent\<close> that \<open>regenerateWithEnhancement\<close> schedules with
  \<open>setTimeout\<close>; its handler sees the form data \<open>fd\<close> of the render in which the click
  happened. \<open>Settle out\<close> is the settlement of a pending request, after which
  \<open>generateContent\<close> runs to its end.
\<close>

datatype event =
    Change field_name jsstring
  | TacticSelect jsstring
  | NextStep
  | PrevStep
  | ToggleAdvanced
  | Generate
  | Scheduled form_data
  | Settle fetch_outcome
  | Clear
  | Regenerate nat

fun apply_event :: "runtime \<Rightarrow> event \<Rightarrow> view_state \<Rightarrow> view_state" where
  "apply_event rt (Change name v) s = handleChange name v s"
| "apply_event rt (TacticSelect v) s = handleTacticSelect v s"
| "apply_event rt NextStep s = handleNextStep s"
| "apply_event rt PrevStep s = handlePrevStep s"
| "apply_event rt ToggleAdvanced s = s\<lparr>showAdvanced := \<not> showAdvanced s\<rparr>"
| "apply_event rt Generate s = fst (generateContent_begin (formData s) s)"
| "apply_event rt (Scheduled fd) s = fst (generateContent_begin fd s)"
| "apply_event rt (Settle out) s = generateContent_resume rt out s"
| "apply_event rt Clear s = clearForm s"
| "apply_event rt (Regenerate r) s = regenerateWithEnhancement r s"

fun run :: "runtime \<Rightarrow> event list \<Rightarrow> view_state \<Rightarrow> view_state" where
  "run rt [] s = s"
| "run rt (e # es) s = run rt es (apply_event rt e s)"

subsection \<open>A runtime and a filled-in form to evaluate with\<close>

text \<open>
  A runtime for concrete evaluation: lower-casing of the letters A to Z (what
  \<open>toLowerCase\<close> does on ASCII text), the string conversion of parsed JSON values, and
  the \<open>TypeError\<close> message of V8.
\<close>

definition ascii_lower :: "code_unit \<Rightarrow> code_unit" where
  "ascii_lower c = (if 0x41 \<le> c \<and> c \<le> 0x5A then c + 0x20 else c)"

fun join_with :: "jsstring \<Rightarrow> jsstring list \<Rightarrow> jsstring" where
  "join_with sep [] = []"
| "join_with sep [x] = x"
| "join_with sep (x # y # ys) = x @ sep @ join_with sep (y # ys)"

fun json_toString :: "json \<Rightarrow> jsstring" where
  "json_toString JNull = js ''null''"
| "json_toString (JBool b) = (if b then js ''true'' else js ''false'')"
| "json_toString (JNum n) = (if n < 0 then 0x2D # show_nat (nat (- n)) else show_nat (nat n))"
| "json_toString (JStr s) = s"
| "json_toString (JArr xs) =
     join_with (js '','') (map (\<lambda>x. if x = JNull then [] else json_toString x) xs)"
| "json_toString (JObj kvs) = js ''[object Object]''"

definition sample_runtime :: runtime where
  "sample_runtime =
     \<lparr> toLowerCase = map ascii_lower,
       toStringValue = json_toString,
       nullReadMessage = (\<lambda>expr k.
         js ''Cannot read properties of null (reading '' @ [0x27] @ k @ [0x27] @ js '')'') \<rparr>"

definition example_formData :: form_data where
  "example_formData =
     initial_formData\<lparr>topic := js ''Market  Entry Plan'', tactics := [js ''swot'', js ''pestle'']\<rparr>"

definition example_state :: view_state where
  "example_state = initial_state\<lparr>formData := example_formData, currentStep := 3\<rparr>"

text \<open>A state that shows generated content for the single tactic \<open>swot\<close>.\<close>

definition generated_state :: view_state where
  "generated_state =
     initial_state
       \<lparr>formData := initial_formData\<lparr>topic := js ''Market  Entry Plan'', tactics := [js ''swot'']\<rparr>,
        currentStep := 3,
        content := JStr (js ''# Plan'')\<rparr>"

section \<open>FileUploader (src/component/fileUpload.tsx)\<close>

record js_file =
  name :: jsstring
  type :: jsstring

datatype tab = Insights | Analysis

text \<open>
  The state hooks of the component. The hook \<open>file\<close> is the field \<open>file_state\<close>, the
  hook \<open>error\<close> the field \<open>uploadError\<close>; the latter and the two data hooks hold \<open>null\<close> (\<open>JNull\<close>) or what their setter was given.
\<close>

record uploader_state =
  loadingInsights :: bool
  loadingAnalysis :: bool
  fileName :: jsstring
  file_state :: "js_file option"
  activeTab :: tab
  insightData :: json
  analysisData :: json
  uploadError :: json
  isDragging :: bool

definition initial_uploader :: uploader_state where
  "initial_uploader =
     \<lparr> loadingInsights = False, loadingAnalysis = False, fileName = [], file_state = None,
       activeTab = Insights, insightData = JNull, analysisData = JNull,
       uploadError = JNull, isDragging = False \<rparr>"

definition isLoading :: "uploader_state \<Rightarrow> bool" where
  "isLoading s \<longleftrightarrow> loadingInsights s \<or> loadingAnalysis s"

text \<open>Both request buttons carry \<open>disabled={!file || isLoading}\<close>.\<close>

definition request_disabled :: "uploader_state \<Rightarrow> bool" where
  "request_disabled s \<longleftrightarrow> file_state s = None \<or> isLoading s"

definition acceptedTypes :: "jsstring list" where
  "acceptedTypes =
     [js ''application/pdf'',
      js ''application/vnd.openxmlformats-officedocument.wordprocessingml.document'']"

definition handleFileSelection :: "js_file \<Rightarrow> uploader_state \<Rightarrow> uploader_state" where
  "handleFileSelection selectedFile s =
     (let s0 = s\<lparr>uploadError := JNull, insightData := JNull, analysisData := JNull\<rparr> in
      if type selectedFile \<notin> set acceptedTypes
      then s0\<lparr>uploadError := JStr (js ''Unsupported file type. Please upload a PDF or DOCX file.''),
              file_state := None, fileName := []\<rparr>
      else s0\<lparr>file_state := Some selectedFile, fileName := name selectedFile\<rparr>)"

text \<open>
  The body of an axios POST: a \<open>FormData\<close> with its entries, or an object sent as JSON.
  \<open>axios.post\<close> is fulfilled with the \<open>data\<close> of a response whose status is 2xx and
  rejected otherwise.
\<close>

datatype post_body = FormDataBody "(jsstring \<times> js_file) list" | JsonBody json

record axios_request =
  post_url :: jsstring
  post_body :: post_body
  post_headers :: "(jsstring \<times> jsstring) list"

datatype axios_outcome = Fulfilled json | Failed thrown

text \<open>\<open>err.response?.data?.error\<close>.\<close>

definition response_error_field :: "thrown \<Rightarrow> json option" where
  "response_error_field err =
     (case err of
        AxiosError m (Some d) \<Rightarrow> (case d of JNull \<Rightarrow> None | _ \<Rightarrow> get_prop d (js ''error''))
      | _ \<Rightarrow> None)"

text \<open>The \<open>catch\<close> block of \<open>commonRequestConfig\<close>: the argument of \<open>setError\<close>.\<close>

definition commonRequestConfig_catch :: "jsstring \<Rightarrow> thrown \<Rightarrow> json" where
  "commonRequestConfig_catch endpoint err =
     (case err of
        AxiosError m r \<Rightarrow>
          or_else (response_error_field err)
            (JStr (js ''Failed to '' @ endpoint @ js ''. Please try again.''))
      | _ \<Rightarrow> JStr (js ''An unexpected error occurred during '' @ endpoint @ js ''.''))"

record upload_run =
  final_uploader :: uploader_state
  posted :: "axios_request list"

text \<open>
  \<open>commonRequestConfig(endpoint, setter, loaderSetter, tab)\<close> returns the click handler; the
  model runs the handler on a state and the outcome of the request.
\<close>

definition commonRequestConfig ::
  "jsstring \<Rightarrow> (json \<Rightarrow> uploader_state \<Rightarrow> uploader_state) \<Rightarrow>
   (bool \<Rightarrow> uploader_state \<Rightarrow> uploader_state) \<Rightarrow> tab \<Rightarrow>
   uploader_state \<Rightarrow> axios_outcome \<Rightarrow> upload_run" where
  "commonRequestConfig endpoint setter loaderSetter t s out =
     (case file_state s of
        None \<Rightarrow>
          \<lparr> final_uploader = s\<lparr>uploadError := JStr (js ''Please select a file first.'')\<rparr>,
            posted = [] \<rparr>
      | Some f \<Rightarrow>
          (let s1 = (setter JNull (loaderSetter True s))\<lparr>uploadError := JNull\<rparr>;
               req = \<lparr> post_url = js ''http://localhost:5000/api/'' @ endpoint,
                       post_body = FormDataBody [(js ''file'', f)],
                       post_headers = [(js ''Content-Type'', js ''multipart/form-data'')] \<rparr>;
               s2 = (case out of
                       Fulfilled d \<Rightarrow> (setter d s1)\<lparr>activeTab := t\<rparr>
                     | Failed err \<Rightarrow> s1\<lparr>uploadError := commonRequestConfig_catch endpoint err\<rparr>)
           in \<lparr> final_uploader = loaderSetter False s2, posted = [req] \<rparr>))"

definition setInsightData :: "json \<Rightarrow> uploader_state \<Rightarrow> uploader_state" where
  "setInsightData v s = s\<lparr>insightData := v\<rparr>"

definition setAnalysisData :: "json \<Rightarrow> uploader_state \<Rightarrow> uploader_state" where
  "setAnalysisData v s = s\<lparr>analysisData := v\<rparr>"

definition setLoadingInsights :: "bool \<Rightarrow> uploader_state \<Rightarrow> uploader_state" where
  "setLoadingInsights b s = s\<lparr>loadingInsights := b\<rparr>"

definition setLoadingAnalysis :: "bool \<Rightarrow> uploader_state \<Rightarrow> uploader_state" where
  "setLoadingAnalysis b s = s\<lparr>loadingAnalysis := b\<rparr>"

definition handleInsights :: "uploader_state \<Rightarrow> axios_outcome \<Rightarrow> upload_run" where
  "handleInsights = commonRequestConfig (js ''insights'') setInsightData setLoadingInsights Insights"

definition handleAnalyze :: "uploader_state \<Rightarrow> axios_outcome \<Rightarrow> upload_run" where
  "handleAnalyze = commonRequestConfig (js ''analyze'') setAnalysisData setLoadingAnalysis Analysis"

section \<open>API wrappers (src/service/api.ts)\<close>

text \<open>
  The server, as far as the wrappers see it: what \<open>axios.post(url, body)\<close> settles with.
  A wrapper returns a value (\<open>Inr\<close>; \<open>None\<close> is \<open>undefined\<close>) or rejects (\<open>Inl\<close>).
\<close>

type_synonym network = "jsstring \<Rightarrow> post_body \<Rightarrow> axios_outcome"

definition BASE_URL :: jsstring where
  "BASE_URL = js ''http://localhost:5000''"

definition post_and_read ::
  "runtime \<Rightarrow> network \<Rightarrow> jsstring \<Rightarrow> post_body \<Rightarrow> jsstring \<Rightarrow> thrown + json option" where
  "post_and_read rt post path body field =
     (case post (BASE_URL @ path) body of
        Failed err \<Rightarrow> Inl err
      | Fulfilled d \<Rightarrow> read_prop rt (js ''res.data'') d field)"

definition text_body :: "jsstring \<Rightarrow> post_body" where
  "text_body t = JsonBody (JObj [(js ''text'', JStr t)])"

definition uploadFile :: "runtime \<Rightarrow> network \<Rightarrow> js_file \<Rightarrow> thrown + json option" where
  "uploadFile rt post f =
     post_and_read rt post (js ''/upload'') (FormDataBody [(js ''file'', f)]) (js ''text'')"

definition rewriteText :: "runtime \<Rightarrow> network \<Rightarrow> jsstring \<Rightarrow> thrown + json option" where
  "rewriteText rt post t = post_and_read rt post (js ''/rewrite'') (text_body t) (js ''result'')"

definition digestText :: "runtime \<Rightarrow> network \<Rightarrow> jsstring \<Rightarrow> thrown + json option" where
  "digestText rt post t = post_and_read rt post (js ''/digest'') (text_body t) (js ''result'')"

definition generateTopics :: "runtime \<Rightarrow> network \<Rightarrow> jsstring \<Rightarrow> thrown + json option" where
  "generateTopics rt post t = post_and_read rt post (js ''/topics'') (text_body t) (js ''topics'')"

subsection \<open>A file, an uploader state and a server to evaluate with\<close>

definition example_file :: js_file where
  "example_file = \<lparr> name = js ''report.pdf'', type = js ''application/pdf'' \<rparr>"

definition example_uploader :: uploader_state where
  "example_uploader = handleFileSelection example_file initial_uploader"

definition example_network :: network where
  "example_network u b =
     (if u = js ''http://localhost:5000/upload''
      then Fulfilled (JObj [(js ''text'', JStr (js ''extracted text''))])
      else if u = js ''http://localhost:5000/topics''
      then Fulfilled (JObj [(js ''topics'', JArr [JStr (js ''pricing''), JStr (js ''growth'')])])
      else Fulfilled (JObj [(js ''result'', JStr (js ''shorter text''))]))"

section \<open>Properties of TacticalContentGenerator\<close>

text \<open>
  C1. On step 0, \<open>handleNextStep\<close> moves \<open>currentStep\<close> to 1 exactly when the topic is
  not empty after trimming; with a blank topic the step stays 0 and the error message asks
  for the "Core Query".
\<close>

theorem handleNextStep_from_step0:
  assumes "currentStep s = 0"
  shows "(currentStep (handleNextStep s) = 1 \<longleftrightarrow> trim (topic (formData s)) \<noteq> [])
       \<and> (trim (topic (formData s)) = [] \<longrightarrow>
            currentStep (handleNextStep s) = 0
          \<and> error (handleNextStep s) = js ''Please provide a \"Core Query\" (topic) to proceed.'')"
  using assms by (simp add: handleNextStep_def validateStep_def steps_def Let_def)

theorem handleNextStep_from_step0_witness:
  "currentStep (initial_state\<lparr>formData := initial_formData\<lparr>topic := [0x20, 0x09]\<rparr>\<rparr>) = 0
   \<and> trim (topic (formData (initial_state\<lparr>formData := initial_formData\<lparr>topic := [0x20, 0x09]\<rparr>\<rparr>))) = []
   \<and> currentStep (handleNextStep (initial_state\<lparr>formData := initial_formData\<lparr>topic := [0x20, 0x09]\<rparr>\<rparr>)) = 0
   \<and> error (handleNextStep (initial_state\<lparr>formData := initial_formData\<lparr>topic := [0x20, 0x09]\<rparr>\<rparr>))
       = js ''Please provide a \"Core Query\" (topic) to proceed.''"
  using handleNextStep_from_step0 [of "initial_state\<lparr>formData := initial_formData\<lparr>topic := [0x20, 0x09]\<rparr>\<rparr>"]
  by (simp add: initial_state_def initial_formData_def trim_def is_ws_def)

text \<open>
  C2. When the form data \<open>fd\<close> that \<open>generateContent\<close> reads has a blank topic or an empty
  list of tactics, the handler sets the error message "Please complete all previous
  required fields." and returns: no request is issued, and \<open>loading\<close>, \<open>content\<close> and every
  other hook but \<open>error\<close> keep their values. For a click on the generate button \<open>fd\<close> is the
  form data of the state.
\<close>

theorem generateContent_blocked:
  assumes "trim (topic fd) = [] \<or> tactics fd = []"
  shows "generateContent_begin fd s =
           (s\<lparr>error := js ''Please complete all previous required fields.''\<rparr>, None)
       \<and> (formData s = fd \<longrightarrow>
            generateContent rt s out =
              \<lparr> final = s\<lparr>error := js ''Please complete all previous required fields.''\<rparr>,
                issued = [] \<rparr>
          \<and> issued (generateContent rt s out) = []
          \<and> error (final (generateContent rt s out))
              = js ''Please complete all previous required fields.''
          \<and> loading (final (generateContent rt s out)) = loading s
          \<and> content (final (generateContent rt s out)) = content s)"
proof -
  have blocked: "generateContent_begin fd s =
           (s\<lparr>error := js ''Please complete all previous required fields.''\<rparr>, None)"
    using assms by (auto simp add: generateContent_begin_def)
  then show ?thesis
    by (simp add: generateContent_def)
qed

theorem generateContent_blocked_witness:
  "(trim (topic (formData initial_state)) = [] \<or> tactics (formData initial_state) = [])
   \<and> issued (generateContent sample_runtime initial_state (Rejected NonError)) = []
   \<and> final (generateContent sample_runtime initial_state (Rejected NonError))
       = initial_state\<lparr>error := js ''Please complete all previous required fields.''\<rparr>"
  using generateContent_blocked
    [of "formData initial_state" initial_state sample_runtime "Rejected NonError"]
  by (simp add: initial_state_def initial_formData_def trim_def)

lemma payload_keys_distinct:
  "distinct [js ''contentType'', js ''topic'', js ''tactics'', js ''tone'', js ''length'',
             js ''complexity'', js ''audience'', js ''keywords'', js ''examples'',
             js ''humorLevel'']"
  by (simp add: js_def)

text \<open>
  The payload mirrors the form data that the handler reads. When the form data \<open>fd\<close> that
  \<open>generateContent\<close> reads has a topic that is not blank
  and at least one tactic, the handler issues one POST to the generate-content endpoint
  whose payload has exactly the ten fields \<open>contentType\<close>, \<open>topic\<close>, \<open>tactics\<close>, \<open>tone\<close>,
  \<open>length\<close>, \<open>complexity\<close>, \<open>audience\<close>, \<open>keywords\<close>, \<open>examples\<close> and \<open>humorLevel\<close>, each with
  the value of that field in \<open>fd\<close>. For a click on the generate button \<open>fd\<close> is the form data
  of the state.
\<close>

theorem generateContent_payload_fields:
  assumes "trim (topic fd) \<noteq> []" and "tactics fd \<noteq> []"
  shows "snd (generateContent_begin fd s) =
           Some \<lparr> url = js ''https://educt-back.onrender.com/api/generate-content'',
                  http_method = js ''POST'',
                  headers = [(js ''Content-Type'', js ''application/json'')],
                  payload =
                    JObj [(js ''contentType'', JStr (contentType fd)),
                          (js ''topic'', JStr (topic fd)),
                          (js ''tactics'', JArr (map JStr (tactics fd))),
                          (js ''tone'', JStr (tone fd)),
                          (js ''length'', JStr (length_field fd)),
                          (js ''complexity'', JStr (complexity fd)),
                          (js ''audience'', JStr (audience fd)),
                          (js ''keywords'', JStr (keywords_field fd)),
                          (js ''examples'', JStr (examples fd)),
                          (js ''humorLevel'', JStr (humorLevel fd))] \<rparr>
       \<and> (formData s = fd \<longrightarrow>
            map payload (issued (generateContent rt s out))
              = [JObj [(js ''contentType'', JStr (contentType (formData s))),
                       (js ''topic'', JStr (topic (formData s))),
                       (js ''tactics'', JArr (map JStr (tactics (formData s)))),
                       (js ''tone'', JStr (tone (formData s))),
                       (js ''length'', JStr (length_field (formData s))),
                       (js ''complexity'', JStr (complexity (formData s))),
                       (js ''audience'', JStr (audience (formData s))),
                       (js ''keywords'', JStr (keywords_field (formData s))),
                       (js ''examples'', JStr (examples (formData s))),
                       (js ''humorLevel'', JStr (humorLevel (formData s)))]])
       \<and> distinct [js ''contentType'', js ''topic'', js ''tactics'', js ''tone'', js ''length'',
             js ''complexity'', js ''audience'', js ''keywords'', js ''examples'',
             js ''humorLevel'']"
proof -
  have started: "generateContent_begin fd s =
      (s\<lparr>loading := True, error := [], content := JStr []\<rparr>, Some (generateContent_request fd))"
    using assms by (simp add: generateContent_begin_def)
  have req: "snd (generateContent_begin fd s) = Some (generateContent_request fd)"
    by (simp add: started)
  have "formData s = fd \<Longrightarrow>
          issued (generateContent rt s out) = [generateContent_request fd]"
    by (simp add: generateContent_def started)
  with req show ?thesis
    using payload_keys_distinct
    by (auto simp add: generateContent_request_def generateContent_payload_def)
qed

lemma example_state_valid:
  "trim (topic (formData example_state)) \<noteq> [] \<and> tactics (formData example_state) \<noteq> []"
  by (simp add: example_state_def example_formData_def initial_state_def initial_formData_def
      trim_def is_ws_def js_def)

theorem generateContent_payload_fields_example:
  "trim (topic (formData example_state)) \<noteq> []
   \<and> tactics (formData example_state) \<noteq> []
   \<and> map payload (issued (generateContent sample_runtime example_state (Rejected NonError)))
       = [JObj [(js ''contentType'', JStr (js ''strategy'')),
                (js ''topic'', JStr (js ''Market  Entry Plan'')),
                (js ''tactics'', JArr [JStr (js ''swot''), JStr (js ''pestle'')]),
                (js ''tone'', JStr (js ''professional'')),
                (js ''length'', JStr (js ''medium'')),
                (js ''complexity'', JStr (js ''intermediate'')),
                (js ''audience'', JStr []),
                (js ''keywords'', JStr []),
                (js ''examples'', JStr (js ''yes'')),
                (js ''humorLevel'', JStr (js ''none''))]]"
  using generateContent_payload_fields
          [of "formData example_state" example_state sample_runtime "Rejected NonError"]
    example_state_valid
  by (simp add: example_state_def example_formData_def initial_state_def initial_formData_def)

text \<open>
  C4. The payload that \<open>generateContent\<close> posts has to carry the fields of the current form
  data. After a click on "Optimize & Regenerate" it does not: in a state with the tactic
  \<open>swot\<close>, the click adds \<open>growth\<close> to the form data, and the call of \<open>generateContent\<close> that
  it schedules posts the tactics \<open>[swot]\<close> of the earlier render, while the form data of the
  state, with a topic and two tactics, is \<open>[swot, growth]\<close>.
\<close>

theorem regenerate_posts_stale_tactics:
  "trim (topic (formData (final (regenerateWithEnhancement_click sample_runtime 3 generated_state
      (Response 200 (Parsed (JObj [(js ''content'', JStr (js ''# Plan 2''))]))))))) \<noteq> []
   \<and> tactics (formData (final (regenerateWithEnhancement_click sample_runtime 3 generated_state
      (Response 200 (Parsed (JObj [(js ''content'', JStr (js ''# Plan 2''))]))))))
       = [js ''swot'', js ''growth'']
   \<and> map (\<lambda>req. get_prop (payload req) (js ''tactics''))
        (issued (regenerateWithEnhancement_click sample_runtime 3 generated_state
          (Response 200 (Parsed (JObj [(js ''content'', JStr (js ''# Plan 2''))])))))
       = [Some (JArr [JStr (js ''swot'')])]
   \<and> map (\<lambda>req. get_prop (payload req) (js ''tactics''))
        (issued (regenerateWithEnhancement_click sample_runtime 3 generated_state
          (Response 200 (Parsed (JObj [(js ''content'', JStr (js ''# Plan 2''))])))))
       \<noteq> [Some (JArr (map JStr (tactics (formData (final
            (regenerateWithEnhancement_click sample_runtime 3 generated_state
              (Response 200 (Parsed (JObj [(js ''content'', JStr (js ''# Plan 2''))])))))))))]"
proof -
  have click: "regenerateWithEnhancement 3 generated_state =
      generated_state\<lparr>formData := (formData generated_state)
        \<lparr>tactics := [js ''swot'', js ''growth'']\<rparr>\<rparr>"
    by (simp add: regenerateWithEnhancement_def generated_state_def initial_state_def
        initial_formData_def tacticalOptions_def js_def Let_def)
  have valid: "trim (topic (formData generated_state)) \<noteq> []
      \<and> tactics (formData generated_state) = [js ''swot'']"
    by (simp add: generated_state_def initial_state_def initial_formData_def trim_def is_ws_def
        js_def)
  have whole: "regenerateWithEnhancement_click sample_runtime 3 generated_state
        (Response 200 (Parsed (JObj [(js ''content'', JStr (js ''# Plan 2''))])))
      = \<lparr> final = generateContent_resume sample_runtime
                   (Response 200 (Parsed (JObj [(js ''content'', JStr (js ''# Plan 2''))])))
                   ((regenerateWithEnhancement 3 generated_state)
                      \<lparr>loading := True, error := [], content := JStr []\<rparr>),
          issued = [generateContent_request (formData generated_state)] \<rparr>"
    using valid
    by (simp add: regenerateWithEnhancement_click_def generateContent_begin_def)
  have form: "formData (final (regenerateWithEnhancement_click sample_runtime 3 generated_state
        (Response 200 (Parsed (JObj [(js ''content'', JStr (js ''# Plan 2''))])))))
      = (formData generated_state)\<lparr>tactics := [js ''swot'', js ''growth'']\<rparr>"
    by (simp add: whole click generateContent_resume_def split: sum.split)
  have sent: "map (\<lambda>req. get_prop (payload req) (js ''tactics''))
        (issued (regenerateWithEnhancement_click sample_runtime 3 generated_state
          (Response 200 (Parsed (JObj [(js ''content'', JStr (js ''# Plan 2''))])))))
      = [Some (JArr [JStr (js ''swot'')])]"
    unfolding whole using valid
    by (simp add: generateContent_request_def generateContent_payload_def js_def)
  from valid show ?thesis
    unfolding sent form by (simp add: js_def)
qed

section \<open>Failed and answered requests\<close>

lemma generateContent_valid:
  assumes "trim (topic (formData s)) \<noteq> []" and "tactics (formData s) \<noteq> []"
  shows "generateContent rt s out =
           \<lparr> final = generateContent_resume rt out (s\<lparr>loading := True, error := [], content := JStr []\<rparr>),
             issued = [generateContent_request (formData s)] \<rparr>"
  using assms by (simp add: generateContent_def generateContent_begin_def)

lemma generateContent_catch_nonempty: "generateContent_catch e \<noteq> []"
  by (cases e) (simp_all add: generateContent_catch_def or_string_def js_def)

lemma generateContent_try_failed: "fetch_failed out \<Longrightarrow> \<exists>e. generateContent_try rt out = Inl e"
  by (cases out) (auto simp add: generateContent_try_def Let_def split: sum.split body_read.split)

lemma loading_generateContent_resume: "loading (generateContent_resume rt out s) = False"
  by (simp add: generateContent_resume_def split: sum.split)

lemma generateContent_resume_failed:
  assumes "generateContent_try rt out = Inl e"
  shows "generateContent_resume rt out s = s\<lparr>error := generateContent_catch e, loading := False\<rparr>"
  using assms by (simp add: generateContent_resume_def)

lemma commonRequestConfig_catch_truthy: "truthy (commonRequestConfig_catch endpoint err)"
  by (cases err)
     (auto simp add: commonRequestConfig_catch_def or_else_def js_def split: option.split)

lemma commonRequestConfig_catch_string:
  "is_string (commonRequestConfig_catch endpoint err) \<longleftrightarrow> string_or_falsy (response_error_field err)"
  by (cases err)
     (auto simp add: commonRequestConfig_catch_def or_else_def response_error_field_def
        split: option.split json.split)

lemma handleInsights_failed:
  assumes "file_state u = Some f"
  shows "final_uploader (handleInsights u (Failed err)) =
           u\<lparr>loadingInsights := False, insightData := JNull,
              uploadError := commonRequestConfig_catch (js ''insights'') err\<rparr>"
  using assms
  by (simp add: handleInsights_def commonRequestConfig_def setInsightData_def
      setLoadingInsights_def Let_def)

lemma handleAnalyze_failed:
  assumes "file_state u = Some f"
  shows "final_uploader (handleAnalyze u (Failed err)) =
           u\<lparr>loadingAnalysis := False, analysisData := JNull,
              uploadError := commonRequestConfig_catch (js ''analyze'') err\<rparr>"
  using assms
  by (simp add: handleAnalyze_def commonRequestConfig_def setAnalysisData_def
      setLoadingAnalysis_def Let_def)

text \<open>
  What a failed request leaves behind. When the request of \<open>generateContent\<close> fails
  (\<open>fetch\<close> rejects, or the response is not ok), the handler ends with a non-empty error
  string, empty content and \<open>loading\<close> false, and the generate button is enabled again;
  \<open>loading\<close> is false at the end for every outcome. When the request of \<open>handleInsights\<close>
  or \<open>handleAnalyze\<close> fails, the handler ends with a truthy value in the error hook, its
  loading flag false and the request buttons enabled again. That value is the \<open>error\<close> field
  of the response body as received when it is truthy, and a fixed string otherwise: it is a
  string exactly when the \<open>error\<close> field is a string, falsy or missing.
\<close>

theorem failed_request_is_reported:
  assumes "trim (topic (formData s)) \<noteq> []" and "tactics (formData s) \<noteq> []"
    and "fetch_failed out"
    and "file_state u = Some f" and "\<not> isLoading u"
  shows "issued (generateContent rt s out) = [generateContent_request (formData s)]
       \<and> error (final (generateContent rt s out)) \<noteq> []
       \<and> content (final (generateContent rt s out)) = JStr []
       \<and> loading (final (generateContent rt s out)) = False
       \<and> loading (final (generateContent rt s any_out)) = False
       \<and> \<not> generate_disabled (final (generateContent rt s out))
       \<and> truthy (uploadError (final_uploader (handleInsights u (Failed err))))
       \<and> (is_string (uploadError (final_uploader (handleInsights u (Failed err))))
            \<longleftrightarrow> string_or_falsy (response_error_field err))
       \<and> loadingInsights (final_uploader (handleInsights u (Failed err))) = False
       \<and> \<not> request_disabled (final_uploader (handleInsights u (Failed err)))
       \<and> truthy (uploadError (final_uploader (handleAnalyze u (Failed err))))
       \<and> (is_string (uploadError (final_uploader (handleAnalyze u (Failed err))))
            \<longleftrightarrow> string_or_falsy (response_error_field err))
       \<and> loadingAnalysis (final_uploader (handleAnalyze u (Failed err))) = False
       \<and> \<not> request_disabled (final_uploader (handleAnalyze u (Failed err)))"
proof -
  obtain e where e: "generateContent_try rt out = Inl e"
    using generateContent_try_failed [OF assms(3)] by blast
  have gen: "error (final (generateContent rt s out)) \<noteq> []
       \<and> issued (generateContent rt s out) = [generateContent_request (formData s)]
       \<and> content (final (generateContent rt s out)) = JStr []
       \<and> loading (final (generateContent rt s out)) = False
       \<and> \<not> generate_disabled (final (generateContent rt s out))"
    using generateContent_catch_nonempty [of e]
    by (simp add: generateContent_valid [OF assms(1,2)] generateContent_resume_failed [OF e]
        generate_disabled_def)
  have any: "loading (final (generateContent rt s any_out)) = False"
    by (simp add: generateContent_valid [OF assms(1,2)] loading_generateContent_resume)
  have ins: "truthy (uploadError (final_uploader (handleInsights u (Failed err))))
       \<and> (is_string (uploadError (final_uploader (handleInsights u (Failed err))))
            \<longleftrightarrow> string_or_falsy (response_error_field err))
       \<and> loadingInsights (final_uploader (handleInsights u (Failed err))) = False
       \<and> \<not> request_disabled (final_uploader (handleInsights u (Failed err)))"
    using assms(4,5)
    by (simp add: handleInsights_failed [OF assms(4)] commonRequestConfig_catch_truthy
        commonRequestConfig_catch_string request_disabled_def isLoading_def)
  have ana: "truthy (uploadError (final_uploader (handleAnalyze u (Failed err))))
       \<and> (is_string (uploadError (final_uploader (handleAnalyze u (Failed err))))
            \<longleftrightarrow> string_or_falsy (response_error_field err))
       \<and> loadingAnalysis (final_uploader (handleAnalyze u (Failed err))) = False
       \<and> \<not> request_disabled (final_uploader (handleAnalyze u (Failed err)))"
    using assms(4,5)
    by (simp add: handleAnalyze_failed [OF assms(4)] commonRequestConfig_catch_truthy
        commonRequestConfig_catch_string request_disabled_def isLoading_def)
  from gen any ins ana show ?thesis by simp
qed

lemma example_uploader_ready:
  "file_state example_uploader = Some example_file \<and> \<not> isLoading example_uploader"
  by (simp add: example_uploader_def example_file_def handleFileSelection_def acceptedTypes_def
      initial_uploader_def isLoading_def Let_def)

theorem failed_request_is_reported_example:
  "trim (topic (formData example_state)) \<noteq> []
   \<and> tactics (formData example_state) \<noteq> []
   \<and> fetch_failed (Response 500 (Parsed (JObj [(js ''message'', JStr (js ''Model overloaded''))])))
   \<and> file_state example_uploader = Some example_file
   \<and> \<not> isLoading example_uploader
   \<and> error (final (generateContent sample_runtime example_state
        (Response 500 (Parsed (JObj [(js ''message'', JStr (js ''Model overloaded''))])))))
       = js ''Model overloaded''
   \<and> loading (final (generateContent sample_runtime example_state
        (Response 500 (Parsed (JObj [(js ''message'', JStr (js ''Model overloaded''))]))))) = False
   \<and> string_or_falsy (response_error_field
        (AxiosError (js ''Request failed with status code 400'')
           (Some (JObj [(js ''error'', JStr (js ''Empty document''))]))))
   \<and> uploadError (final_uploader (handleInsights example_uploader
        (Failed (AxiosError (js ''Request failed with status code 400'')
           (Some (JObj [(js ''error'', JStr (js ''Empty document''))]))))))
       = JStr (js ''Empty document'')
   \<and> loadingInsights (final_uploader (handleInsights example_uploader
        (Failed (AxiosError (js ''Request failed with status code 400'')
           (Some (JObj [(js ''error'', JStr (js ''Empty document''))])))))) = False"
  using failed_request_is_reported
    [of example_state "Response 500 (Parsed (JObj [(js ''message'', JStr (js ''Model overloaded''))]))"
        example_uploader example_file sample_runtime
        "Response 500 (Parsed (JObj [(js ''message'', JStr (js ''Model overloaded''))]))"
        "AxiosError (js ''Request failed with status code 400'')
           (Some (JObj [(js ''error'', JStr (js ''Empty document''))]))"]
    example_state_valid example_uploader_ready
  by (simp add: generateContent_valid generateContent_resume_def generateContent_try_def
      generateContent_catch_def read_prop_def or_else_def or_string_def to_message_def
      response_ok_def handleInsights_failed commonRequestConfig_catch_def
      response_error_field_def js_def Let_def)

text \<open>
  C3. A failed request has to leave a string error message in the view state. In
  FileUploader it does not always: after a 500 response to the insights request whose body
  is \<open>{"error": {"code": 500}}\<close>, the error hook holds the object \<open>{"code": 500}\<close>.
\<close>

theorem handleInsights_stores_error_object:
  "file_state example_uploader = Some example_file
   \<and> uploadError (final_uploader (handleInsights example_uploader
        (Failed (AxiosError (js ''Request failed with status code 500'')
           (Some (JObj [(js ''error'', JObj [(js ''code'', JNum 500)])]))))))
       = JObj [(js ''code'', JNum 500)]
   \<and> \<not> is_string (uploadError (final_uploader (handleInsights example_uploader
        (Failed (AxiosError (js ''Request failed with status code 500'')
           (Some (JObj [(js ''error'', JObj [(js ''code'', JNum 500)])])))))))"
  using example_uploader_ready
  by (simp add: handleInsights_failed commonRequestConfig_catch_def
      response_error_field_def or_else_def js_def)

lemma no_content_message_kept:
  "or_string (js ''No content received from backend server'') b
     = js ''No content received from backend server''"
  by (simp add: or_string_def js_def)

text \<open>
  What an ok response leaves behind, for a parsed body \<open>d\<close>: when \<open>d.content\<close> is truthy,
  it is stored as the content and no error is set; when \<open>d\<close> is not \<open>null\<close> and
  \<open>d.content\<close> is missing or falsy, the error is "No content received from backend server"
  and the content stays empty; when \<open>d\<close> is \<open>null\<close>, the error is the message of the
  \<open>TypeError\<close> that reading \<open>data.content\<close> raises and the content stays empty. In
  every case \<open>loading\<close> ends false.
\<close>

theorem generateContent_ok_response:
  assumes "trim (topic (formData s)) \<noteq> []" and "tactics (formData s) \<noteq> []"
    and "response_ok status"
  shows "(get_prop d (js ''content'') = Some c \<and> truthy c \<longrightarrow>
            content (final (generateContent rt s (Response status (Parsed d)))) = c
          \<and> error (final (generateContent rt s (Response status (Parsed d)))) = [])
       \<and> (d \<noteq> JNull \<and> (get_prop d (js ''content'') = None
                         \<or> (\<exists>c'. get_prop d (js ''content'') = Some c' \<and> \<not> truthy c')) \<longrightarrow>
            error (final (generateContent rt s (Response status (Parsed d))))
              = js ''No content received from backend server''
          \<and> content (final (generateContent rt s (Response status (Parsed d)))) = JStr [])
       \<and> (d = JNull \<longrightarrow>
            error (final (generateContent rt s (Response status (Parsed d))))
              = or_string (nullReadMessage rt (js ''data'') (js ''content''))
                  (js ''Failed to generate content. Please check your network and try again.'')
          \<and> content (final (generateContent rt s (Response status (Parsed d)))) = JStr [])
       \<and> loading (final (generateContent rt s (Response status (Parsed d)))) = False"
  using assms(3)
  by (cases d)
     (auto simp add: generateContent_valid [OF assms(1,2)] generateContent_resume_def
        generateContent_try_def generateContent_catch_def read_prop_def no_content_message_kept
        split: option.split)

theorem generateContent_ok_response_example:
  "trim (topic (formData example_state)) \<noteq> []
   \<and> tactics (formData example_state) \<noteq> []
   \<and> response_ok 200
   \<and> get_prop (JObj [(js ''content'', JStr (js ''# Plan''))]) (js ''content'') = Some (JStr (js ''# Plan''))
   \<and> truthy (JStr (js ''# Plan''))
   \<and> content (final (generateContent sample_runtime example_state
        (Response 200 (Parsed (JObj [(js ''content'', JStr (js ''# Plan''))]))))) = JStr (js ''# Plan'')
   \<and> get_prop (JObj [(js ''text'', JStr (js ''# Plan''))]) (js ''content'') = None
   \<and> error (final (generateContent sample_runtime example_state
        (Response 200 (Parsed (JObj [(js ''text'', JStr (js ''# Plan''))])))))
       = js ''No content received from backend server''
   \<and> error (final (generateContent sample_runtime example_state (Response 200 (Parsed JNull))))
       = js ''Cannot read properties of null (reading '' @ [0x27] @ js ''content'' @ [0x27] @ js '')''"
  using generateContent_ok_response
          [of example_state 200 "JObj [(js ''content'', JStr (js ''# Plan''))]" "JStr (js ''# Plan'')"
              sample_runtime]
        generateContent_ok_response
          [of example_state 200 "JObj [(js ''text'', JStr (js ''# Plan''))]" "JStr (js ''# Plan'')"
              sample_runtime]
        generateContent_ok_response
          [of example_state 200 JNull "JStr (js ''# Plan'')" sample_runtime]
        example_state_valid
  by (simp add: response_ok_def sample_runtime_def or_string_def js_def)

text \<open>
  C5. An ok response without a \<open>content\<close> field has to end in the error "No content
  received from backend server". For the ok response with body \<open>null\<close> it does not: the
  body has no \<open>content\<close> field, and the error reported is the \<open>TypeError\<close> message of the
  runtime.
\<close>

theorem generateContent_null_body_error:
  "response_ok 200
   \<and> get_prop JNull (js ''content'') = None
   \<and> error (final (generateContent sample_runtime example_state (Response 200 (Parsed JNull))))
       = js ''Cannot read properties of null (reading '' @ [0x27] @ js ''content'' @ [0x27] @ js '')''
   \<and> error (final (generateContent sample_runtime example_state (Response 200 (Parsed JNull))))
       \<noteq> js ''No content received from backend server''"
  using example_state_valid
  by (simp add: generateContent_valid generateContent_resume_def generateContent_try_def
      generateContent_catch_def read_prop_def or_string_def response_ok_def sample_runtime_def
      js_def)

section \<open>Download, reset and tactic selection\<close>

lemma spec_dash_runs_no_ws_prefix:
  "\<forall>x \<in> set xs. \<not> is_ws x \<Longrightarrow> spec_dash_runs False (xs @ ys) = xs @ spec_dash_runs False ys"
  by (induction xs) simp_all

lemma spec_dash_runs_in_run:
  "spec_dash_runs True s = spec_dash_runs False (dropWhile is_ws s)"
  by (induction s) simp_all

lemma replace_ws_runs_spec: "replace_ws_runs s = spec_dash_runs False s"
proof (induction s rule: replace_ws_runs.induct)
  case (1 s)
  show ?case
  proof (cases "dropWhile (\<lambda>c. \<not> is_ws c) s")
    case Nil
    then have "\<forall>x \<in> set s. \<not> is_ws x"
      by (simp add: dropWhile_eq_Nil_conv)
    then have "spec_dash_runs False (s @ []) = s @ spec_dash_runs False []"
      by (rule spec_dash_runs_no_ws_prefix)
    moreover have "replace_ws_runs s = s"
      unfolding replace_ws_runs.simps [of s] Nil by simp
    ultimately show ?thesis by simp
  next
    case (Cons m after)
    have ws: "is_ws m"
      using hd_dropWhile [of "\<lambda>c. \<not> is_ws c" s] Cons by simp
    have split: "s = takeWhile (\<lambda>c. \<not> is_ws c) s @ m # after"
      using takeWhile_dropWhile_id [of "\<lambda>c. \<not> is_ws c" s] Cons by simp
    have pre: "\<forall>x \<in> set (takeWhile (\<lambda>c. \<not> is_ws c) s). \<not> is_ws x"
      by (auto dest: set_takeWhileD)
    have "spec_dash_runs False s
            = takeWhile (\<lambda>c. \<not> is_ws c) s @ spec_dash_runs False (m # after)"
      using spec_dash_runs_no_ws_prefix [OF pre, of "m # after"] split by simp
    also have "spec_dash_runs False (m # after) = 0x2D # spec_dash_runs True after"
      using ws by simp
    also have "spec_dash_runs True after = spec_dash_runs False (dropWhile is_ws after)"
      by (rule spec_dash_runs_in_run)
    also have "\<dots> = replace_ws_runs (dropWhile is_ws after)"
      using "1.IH" [OF Cons] by simp
    finally have "spec_dash_runs False s
            = takeWhile (\<lambda>c. \<not> is_ws c) s @ 0x2D # replace_ws_runs (dropWhile is_ws after)" .
    moreover have "replace_ws_runs s
            = takeWhile (\<lambda>c. \<not> is_ws c) s @ 0x2D # replace_ws_runs (dropWhile is_ws after)"
      unfolding replace_ws_runs.simps [of s] Cons by simp
    ultimately show ?thesis by simp
  qed
qed

text \<open>
  C7. With truthy content (for a string: not empty), \<open>downloadMarkdown\<close> starts a download
  named \<open>tactical-content-\<close>, then the topic with every run of whitespace replaced by a
  hyphen and lower-cased, or \<open>untitled\<close> when that string is empty, then \<open>.md\<close>. With empty
  content it does nothing.
\<close>

theorem downloadMarkdown_filename:
  "(truthy (content s) \<longrightarrow>
      downloadMarkdown rt s =
        Some \<lparr> blobParts = [content s],
               blobType = js ''text/markdown'',
               download_name =
                 js ''tactical-content-''
                 @ (if toLowerCase rt (spec_dash_runs False (topic (formData s))) = []
                    then js ''untitled''
                    else toLowerCase rt (spec_dash_runs False (topic (formData s))))
                 @ js ''.md'' \<rparr>)
   \<and> (\<not> truthy (content s) \<longrightarrow> downloadMarkdown rt s = None)
   \<and> (truthy (JStr c) \<longleftrightarrow> c \<noteq> [])"
proof (cases "truthy (content s)")
  case True
  have "or_string (toLowerCase rt (replace_ws_runs (topic (formData s)))) (js ''untitled'')
          = (if toLowerCase rt (spec_dash_runs False (topic (formData s))) = []
             then js ''untitled''
             else toLowerCase rt (spec_dash_runs False (topic (formData s))))"
    unfolding or_string_def replace_ws_runs_spec by simp
  with True show ?thesis
    by (simp add: downloadMarkdown_def)
next
  case False
  then show ?thesis
    by (simp add: downloadMarkdown_def)
qed

theorem downloadMarkdown_filename_witness:
  "truthy (content (example_state\<lparr>content := JStr (js ''# Plan'')\<rparr>))
   \<and> downloadMarkdown sample_runtime (example_state\<lparr>content := JStr (js ''# Plan'')\<rparr>) =
        Some \<lparr> blobParts = [JStr (js ''# Plan'')],
               blobType = js ''text/markdown'',
               download_name = js ''tactical-content-market-entry-plan.md'' \<rparr>
   \<and> \<not> truthy (content example_state)
   \<and> downloadMarkdown sample_runtime example_state = None"
  using downloadMarkdown_filename [of "example_state\<lparr>content := JStr (js ''# Plan'')\<rparr>" sample_runtime]
    downloadMarkdown_filename [of example_state sample_runtime]
  by (simp add: example_state_def example_formData_def initial_state_def initial_formData_def
      sample_runtime_def js_def is_ws_def ascii_lower_def)

text \<open>
  What \<open>clearForm\<close> does: it puts the form data, the content, the error message, the
  current step and the advanced-options flag back to their initial values and leaves
  \<open>loading\<close> as it is; the state after it is the initial state exactly when \<open>loading\<close>
  was false.
\<close>

theorem clearForm_resets:
  "formData (clearForm s) =
      \<lparr> contentType = js ''strategy'', topic = [], tactics = [],
        tone = js ''professional'', length_field = js ''medium'',
        complexity = js ''intermediate'', audience = [], keywords_field = [],
        examples = js ''yes'', humorLevel = js ''none'' \<rparr>
   \<and> content (clearForm s) = JStr []
   \<and> error (clearForm s) = []
   \<and> currentStep (clearForm s) = 0
   \<and> showAdvanced (clearForm s) = False
   \<and> loading (clearForm s) = loading s
   \<and> (clearForm s = initial_state \<longleftrightarrow> \<not> loading s)"
  by (cases s) (auto simp add: clearForm_def initial_state_def initial_formData_def)

theorem clearForm_resets_example:
  "\<not> loading initial_state
   \<and> clearForm (initial_state\<lparr>formData := example_formData, currentStep := 3, showAdvanced := True,
         content := JStr (js ''# Plan''), error := js ''Server error: 500''\<rparr>) = initial_state"
  using clearForm_resets
    [of "initial_state\<lparr>formData := example_formData, currentStep := 3, showAdvanced := True,
           content := JStr (js ''# Plan''), error := js ''Server error: 500''\<rparr>"]
  by (simp add: initial_state_def)

text \<open>
  C8. \<open>clearForm\<close> has to bring the whole view state back to its initial values from any
  reachable state. While a request is pending it does not: fill in a topic, go on, select a
  tactic, go on twice, click the generate button, then the reset button. \<open>loading\<close> is still
  true, and the state is not the initial one.
\<close>

theorem clearForm_keeps_loading:
  "loading
     (clearForm
        (run sample_runtime
           [Change F_topic (js ''AI''), NextStep, TacticSelect (js ''swot''), NextStep, NextStep,
            Generate]
           initial_state))
   \<and> clearForm
     (run sample_runtime
        [Change F_topic (js ''AI''), NextStep, TacticSelect (js ''swot''), NextStep, NextStep,
         Generate]
        initial_state)
   \<noteq> initial_state"
  by (simp add: clearForm_def initial_state_def initial_formData_def handleChange_def
      handleNextStep_def validateStep_def handleTacticSelect_def toggle_tactic_def
      clear_error_if_set_def steps_def generateContent_begin_def trim_def is_ws_def js_def Let_def)

lemma toggle_tactic_distinct: "distinct ts \<Longrightarrow> distinct (toggle_tactic v ts)"
  by (simp add: toggle_tactic_def)

lemma toggle_tactic_member: "v \<in> set (toggle_tactic v ts) \<longleftrightarrow> v \<notin> set ts"
  by (simp add: toggle_tactic_def)

lemma toggle_tactic_twice:
  "toggle_tactic v (toggle_tactic v ts) = (if v \<in> set ts then filter (\<lambda>t. t \<noteq> v) ts @ [v] else ts)"
  by (auto simp add: toggle_tactic_def filter_id_conv)

lemma tactics_handleTacticSelect:
  "tactics (formData (handleTacticSelect v s)) = toggle_tactic v (tactics (formData s))"
  by (simp add: handleTacticSelect_def clear_error_if_set_def)

lemma tactics_handleChange:
  "tactics (formData (handleChange n v s)) = tactics (formData s)"
  by (cases n) (simp_all add: handleChange_def clear_error_if_set_def)

lemma formData_handleNextStep: "formData (handleNextStep s) = formData s"
  by (simp add: handleNextStep_def validateStep_def Let_def)

lemma formData_handlePrevStep: "formData (handlePrevStep s) = formData s"
  by (simp add: handlePrevStep_def)

lemma formData_generateContent_begin: "formData (fst (generateContent_begin fd s)) = formData s"
  by (simp add: generateContent_begin_def)

lemma formData_generateContent_resume: "formData (generateContent_resume rt out s) = formData s"
  by (simp add: generateContent_resume_def split: sum.split)

lemma regenerateWithEnhancement_distinct:
  assumes "distinct (tactics (formData s))"
  shows "distinct (tactics (formData (regenerateWithEnhancement r s)))"
proof -
  define unused where
    "unused = filter (\<lambda>t. t \<notin> set (tactics (formData s))) (map fst tacticalOptions)"
  have unfolded: "regenerateWithEnhancement r s =
      (if length (tactics (formData s)) > 0 then
         (if length unused > 0
          then s\<lparr>formData := (formData s)
                 \<lparr>tactics := tactics (formData s) @ [unused ! (r mod length unused)]\<rparr>\<rparr>
          else s)
       else s)"
    by (simp only: regenerateWithEnhancement_def Let_def unused_def)
  have fresh: "\<forall>t \<in> set unused. t \<notin> set (tactics (formData s))"
    by (simp add: unused_def)
  show ?thesis
  proof (cases "length (tactics (formData s)) > 0 \<and> length unused > 0")
    case True
    then have "unused ! (r mod length unused) \<in> set unused" by simp
    with fresh have "unused ! (r mod length unused) \<notin> set (tactics (formData s))" by blast
    with assms True show ?thesis by (simp add: unfolded)
  next
    case False
    then have "regenerateWithEnhancement r s = s" by (auto simp add: unfolded)
    with assms show ?thesis by simp
  qed
qed

lemma apply_event_distinct:
  "distinct (tactics (formData s)) \<Longrightarrow> distinct (tactics (formData (apply_event rt e s)))"
  by (cases e)
     (simp_all add: tactics_handleChange tactics_handleTacticSelect toggle_tactic_distinct
        formData_handleNextStep formData_handlePrevStep formData_generateContent_begin
        formData_generateContent_resume regenerateWithEnhancement_distinct clearForm_def)

lemma run_distinct:
  "distinct (tactics (formData s)) \<Longrightarrow> distinct (tactics (formData (run rt es s)))"
  by (induction es arbitrary: s) (simp_all add: apply_event_distinct)

text \<open>
  C10, as amended. On a list of tactics without duplicates, \<open>handleTacticSelect v\<close> makes
  \<open>v\<close> a member exactly when it was not one, and the result has no duplicates. Applied
  twice, it gives a list with the same elements as the original: the original list when
  \<open>v\<close> was not selected, and the original with \<open>v\<close> moved to the end when it was.
  No state reached from the initial state has a duplicate in its list of tactics.
\<close>

theorem handleTacticSelect_toggles:
  assumes "distinct (tactics (formData s))"
  shows "(v \<in> set (tactics (formData (handleTacticSelect v s))) \<longleftrightarrow> v \<notin> set (tactics (formData s)))
       \<and> set (tactics (formData (handleTacticSelect v (handleTacticSelect v s))))
           = set (tactics (formData s))
       \<and> (v \<notin> set (tactics (formData s)) \<longrightarrow>
            tactics (formData (handleTacticSelect v (handleTacticSelect v s))) = tactics (formData s))
       \<and> (v \<in> set (tactics (formData s)) \<longrightarrow>
            tactics (formData (handleTacticSelect v (handleTacticSelect v s)))
              = filter (\<lambda>t. t \<noteq> v) (tactics (formData s)) @ [v])
       \<and> distinct (tactics (formData (handleTacticSelect v s)))
       \<and> distinct (tactics (formData (run rt es initial_state)))"
proof -
  have "distinct (tactics (formData initial_state))"
    by (simp add: initial_state_def initial_formData_def)
  then have "distinct (tactics (formData (run rt es initial_state)))"
    by (rule run_distinct)
  with assms show ?thesis
    by (auto simp add: tactics_handleTacticSelect toggle_tactic_twice toggle_tactic_member
        toggle_tactic_distinct)
qed

text \<open>
  C10 as stated fails for a selected tactic that is not the last one: toggling \<open>swot\<close> twice
  in \<open>[swot, pestle]\<close> gives \<open>[pestle, swot]\<close>.
\<close>

theorem handleTacticSelect_twice_counterexample:
  "distinct (tactics (formData example_state))
   \<and> tactics (formData (handleTacticSelect (js ''swot'') (handleTacticSelect (js ''swot'') example_state)))
       = [js ''pestle'', js ''swot'']
   \<and> tactics (formData (handleTacticSelect (js ''swot'') (handleTacticSelect (js ''swot'') example_state)))
       \<noteq> tactics (formData example_state)"
  by (simp add: tactics_handleTacticSelect toggle_tactic_def example_state_def example_formData_def
      initial_state_def initial_formData_def js_def)

theorem handleTacticSelect_toggles_witness:
  "distinct (tactics (formData example_state))
   \<and> js ''swot'' \<in> set (tactics (formData example_state))
   \<and> js ''swot'' \<notin> set (tactics (formData (handleTacticSelect (js ''swot'') example_state)))
   \<and> tactics (formData (handleTacticSelect (js ''swot'') (handleTacticSelect (js ''swot'') example_state)))
       = [js ''pestle'', js ''swot'']
   \<and> js ''okr'' \<notin> set (tactics (formData example_state))
   \<and> tactics (formData (handleTacticSelect (js ''okr'') (handleTacticSelect (js ''okr'') example_state)))
       = [js ''swot'', js ''pestle'']"
  using handleTacticSelect_toggles [of example_state "js ''swot''" sample_runtime "[]"]
    handleTacticSelect_toggles [of example_state "js ''okr''" sample_runtime "[]"]
  by (simp add: example_state_def example_formData_def initial_state_def initial_formData_def js_def)

section \<open>Properties of FileUploader\<close>

text \<open>
  C9. \<open>handleFileSelection\<close> stores the file and its name exactly when the type of the file
  is \<open>application/pdf\<close> or the DOCX type; for any other type it sets the error "Unsupported
  file type. Please upload a PDF or DOCX file." and leaves no file selected. In both cases
  the previous error, the insight data and the analysis data are cleared.
\<close>

theorem handleFileSelection_accepts_pdf_docx:
  "(file_state (handleFileSelection f s) = Some f \<longleftrightarrow>
      type f = js ''application/pdf''
      \<or> type f = js ''application/vnd.openxmlformats-officedocument.wordprocessingml.document'')
   \<and> (type f = js ''application/pdf''
       \<or> type f = js ''application/vnd.openxmlformats-officedocument.wordprocessingml.document''
       \<longrightarrow> file_state (handleFileSelection f s) = Some f
         \<and> fileName (handleFileSelection f s) = name f
         \<and> uploadError (handleFileSelection f s) = JNull)
   \<and> (type f \<noteq> js ''application/pdf''
       \<and> type f \<noteq> js ''application/vnd.openxmlformats-officedocument.wordprocessingml.document''
       \<longrightarrow> uploadError (handleFileSelection f s)
             = JStr (js ''Unsupported file type. Please upload a PDF or DOCX file.'')
         \<and> file_state (handleFileSelection f s) = None
         \<and> fileName (handleFileSelection f s) = [])
   \<and> insightData (handleFileSelection f s) = JNull
   \<and> analysisData (handleFileSelection f s) = JNull"
proof (cases "type f \<in> set acceptedTypes")
  case True
  then have "handleFileSelection f s =
      s\<lparr>uploadError := JNull, insightData := JNull, analysisData := JNull,
         file_state := Some f, fileName := name f\<rparr>"
    by (simp add: handleFileSelection_def Let_def)
  with True show ?thesis
    by (simp add: acceptedTypes_def)
next
  case False
  then have "handleFileSelection f s =
      s\<lparr>uploadError := JNull, insightData := JNull, analysisData := JNull,
         uploadError := JStr (js ''Unsupported file type. Please upload a PDF or DOCX file.''),
         file_state := None, fileName := []\<rparr>"
    by (simp add: handleFileSelection_def Let_def)
  with False show ?thesis
    by (simp add: acceptedTypes_def)
qed

theorem handleFileSelection_accepts_pdf_docx_witness:
  "type \<lparr>name = js ''report.pdf'', type = js ''application/pdf''\<rparr> = js ''application/pdf''
   \<and> file_state (handleFileSelection \<lparr>name = js ''report.pdf'', type = js ''application/pdf''\<rparr>
        (initial_uploader\<lparr>uploadError := JStr (js ''Please select a file first.'')\<rparr>))
       = Some \<lparr>name = js ''report.pdf'', type = js ''application/pdf''\<rparr>
   \<and> uploadError (handleFileSelection \<lparr>name = js ''report.pdf'', type = js ''application/pdf''\<rparr>
        (initial_uploader\<lparr>uploadError := JStr (js ''Please select a file first.'')\<rparr>)) = JNull
   \<and> type \<lparr>name = js ''notes.txt'', type = js ''text/plain''\<rparr> \<noteq> js ''application/pdf''
   \<and> type \<lparr>name = js ''notes.txt'', type = js ''text/plain''\<rparr>
       \<noteq> js ''application/vnd.openxmlformats-officedocument.wordprocessingml.document''
   \<and> file_state (handleFileSelection \<lparr>name = js ''notes.txt'', type = js ''text/plain''\<rparr>
        initial_uploader) = None
   \<and> uploadError (handleFileSelection \<lparr>name = js ''notes.txt'', type = js ''text/plain''\<rparr>
        initial_uploader)
       = JStr (js ''Unsupported file type. Please upload a PDF or DOCX file.'')"
  using handleFileSelection_accepts_pdf_docx
          [of "\<lparr>name = js ''report.pdf'', type = js ''application/pdf''\<rparr>"
              "initial_uploader\<lparr>uploadError := JStr (js ''Please select a file first.'')\<rparr>"]
        handleFileSelection_accepts_pdf_docx
          [of "\<lparr>name = js ''notes.txt'', type = js ''text/plain''\<rparr>" initial_uploader]
  by (simp add: js_def)

section \<open>Properties of the API wrappers\<close>

lemma read_prop_not_null: "d \<noteq> JNull \<Longrightarrow> read_prop rt e d k = Inr (get_prop d k)"
  by (cases d) (simp_all add: read_prop_def)

text \<open>
  C6. When the server answers the request of a wrapper with a body \<open>d\<close> (not \<open>null\<close>), the
  wrapper returns the designated property of \<open>d\<close> as it is: \<open>uploadFile\<close> the \<open>text\<close> of the
  answer to \<open>/upload\<close>, \<open>rewriteText\<close> the \<open>result\<close> of \<open>/rewrite\<close>, \<open>digestText\<close> the
  \<open>result\<close> of \<open>/digest\<close> and \<open>generateTopics\<close> the \<open>topics\<close> of \<open>/topics\<close>.
\<close>

theorem api_wrappers_return_field:
  "(post (js ''http://localhost:5000/upload'') (FormDataBody [(js ''file'', f)]) = Fulfilled d1
      \<and> d1 \<noteq> JNull
      \<longrightarrow> uploadFile rt post f = Inr (get_prop d1 (js ''text'')))
   \<and> (post (js ''http://localhost:5000/rewrite'') (JsonBody (JObj [(js ''text'', JStr t)])) = Fulfilled d2
      \<and> d2 \<noteq> JNull
      \<longrightarrow> rewriteText rt post t = Inr (get_prop d2 (js ''result'')))
   \<and> (post (js ''http://localhost:5000/digest'') (JsonBody (JObj [(js ''text'', JStr t)])) = Fulfilled d3
      \<and> d3 \<noteq> JNull
      \<longrightarrow> digestText rt post t = Inr (get_prop d3 (js ''result'')))
   \<and> (post (js ''http://localhost:5000/topics'') (JsonBody (JObj [(js ''text'', JStr t)])) = Fulfilled d4
      \<and> d4 \<noteq> JNull
      \<longrightarrow> generateTopics rt post t = Inr (get_prop d4 (js ''topics'')))"
  by (simp add: uploadFile_def rewriteText_def digestText_def generateTopics_def post_and_read_def
      text_body_def BASE_URL_def js_def read_prop_not_null)

theorem api_wrappers_return_field_witness:
  "uploadFile sample_runtime example_network example_file = Inr (Some (JStr (js ''extracted text'')))
   \<and> rewriteText sample_runtime example_network (js ''long text'') = Inr (Some (JStr (js ''shorter text'')))
   \<and> digestText sample_runtime example_network (js ''long text'') = Inr (Some (JStr (js ''shorter text'')))
   \<and> generateTopics sample_runtime example_network (js ''long text'')
       = Inr (Some (JArr [JStr (js ''pricing''), JStr (js ''growth'')]))"
  using api_wrappers_return_field
    [of example_network example_file "JObj [(js ''text'', JStr (js ''extracted text''))]"
        sample_runtime "js ''long text''"
        "JObj [(js ''result'', JStr (js ''shorter text''))]"
        "JObj [(js ''result'', JStr (js ''shorter text''))]"
        "JObj [(js ''topics'', JArr [JStr (js ''pricing''), JStr (js ''growth'')])]"]
  by (simp add: example_network_def js_def)

end
